theory Spec2Isabelle
  imports Complex_Main
begin

section \<open>The racing game of CarGame.py\<close>

text \<open>
  A shallow embedding of \<^verbatim>\<open>src/CarGame.py\<close>. Python's floats are modelled as
  \<^typ>\<open>real\<close> (no rounding, no infinities), Python's unbounded ints as \<^typ>\<open>int\<close>. The one
  place where a property below depends on rounding is the steering arithmetic of
  \<^verbatim>\<open>compute_angle\<close>; there the subtraction and the addition are parameters (\<open>steer\<close>),
  and the property is proved for operations that round.
  Mutation of \<^verbatim>\<open>self\<close> is explicit state passing: every method takes the object and
  returns the updated one. Rendering, the frame clock and the five-second pauses change no
  field of any object and are left out.
\<close>

subsection \<open>Errors and list indexing\<close>

datatype error = IndexError

text \<open>
  \<^verbatim>\<open>xs[i]\<close> on a Python list: a negative index counts from the end, an index
  outside \<open>[-len, len)\<close> raises \<^verbatim>\<open>IndexError\<close>.
\<close>

definition list_getitem :: "'a list \<Rightarrow> int \<Rightarrow> error + 'a" where
  "list_getitem xs i =
     (if 0 \<le> i \<and> i < int (length xs) then Inr (xs ! nat i)
      else if i < 0 \<and> - int (length xs) \<le> i then Inr (xs ! nat (int (length xs) + i))
      else Inl IndexError)"

subsection \<open>Images and masks (lines 7--27)\<close>

text \<open>
  The image files are not part of the sources, so what the code reads from them is a
  parameter: a surface offers its width and height, and a pygame mask is represented by its
  \<^verbatim>\<open>overlap\<close> method, which takes the surface whose mask is tested
  (\<^verbatim>\<open>pygame.mask.from_surface\<close>) and an offset and returns the first point of
  intersection or \<^verbatim>\<open>None\<close>.
\<close>

record surface =
  file_name :: string
  get_width :: int
  get_height :: int

type_synonym mask = "surface \<Rightarrow> int \<times> int \<Rightarrow> (int \<times> int) option"

record assets =
  TRACK_EDGE_MASK :: mask
  FINISH_LINE_MASK :: mask
  PLAYER_CAR_IMAGE :: surface
  AI_CAR_IMAGE :: surface

definition FINISH_POS :: "real \<times> real" where
  "FINISH_POS = (130, 250)"

definition WAYPOINTS :: "(int \<times> int) list" where
  "WAYPOINTS = [(175, 119), (110, 70), (56, 133), (70, 481), (318, 731), (404, 680),
     (418, 521), (507, 475), (600, 551), (613, 715), (736, 713), (734, 399), (611, 357),
     (409, 343), (433, 257), (697, 258), (738, 123), (581, 71), (303, 78), (275, 377),
     (176, 388), (178, 260)]"

subsection \<open>GameInfo (lines 30--59)\<close>

record GameInfo =
  stage :: int
  in_progress :: bool
  stage_start_time :: real

definition LEVELS :: int where
  "LEVELS = 10"

definition GameInfo_init :: "int \<Rightarrow> GameInfo" where
  "GameInfo_init st = \<lparr>stage = st, in_progress = False, stage_start_time = 0\<rparr>"

definition GameInfo_advance_level :: "GameInfo \<Rightarrow> GameInfo" where
  "GameInfo_advance_level g = g\<lparr>stage := stage g + 1, in_progress := False\<rparr>"

definition GameInfo_reset_state :: "GameInfo \<Rightarrow> GameInfo" where
  "GameInfo_reset_state g = g\<lparr>stage := 1, in_progress := False, stage_start_time := 0\<rparr>"

definition is_game_finished :: "GameInfo \<Rightarrow> bool" where
  "is_game_finished g = (stage g > LEVELS)"

text \<open>\<^verbatim>\<open>start_stage\<close> reads the clock; the time read is the argument \<open>now\<close>.\<close>

definition start_stage :: "real \<Rightarrow> GameInfo \<Rightarrow> GameInfo" where
  "start_stage now g = g\<lparr>in_progress := True, stage_start_time := now\<rparr>"

subsection \<open>AbstractCar (lines 62--112)\<close>

text \<open>
  The class attribute \<^verbatim>\<open>START_POSITION\<close> is read through \<^verbatim>\<open>self\<close>, so it is a field
  of the record; the subclass's constructor fills it in. \<^verbatim>\<open>PlayerCar\<close> adds no field
  and is the record \<open>car\<close>; \<^verbatim>\<open>ComputerCar\<close> extends it below.
\<close>

record car =
  sprite :: surface
  max_speed :: real
  speed :: real
  turn_speed :: real
  heading :: real
  x_pos :: real
  y_pos :: real
  acceleration :: real
  START_POSITION :: "real \<times> real"

definition AbstractCar_init :: "surface \<Rightarrow> real \<times> real \<Rightarrow> real \<Rightarrow> real \<Rightarrow> car" where
  "AbstractCar_init img start ms ts =
     \<lparr>sprite = img, max_speed = ms, speed = 0, turn_speed = ts, heading = 0,
      x_pos = fst start, y_pos = snd start, acceleration = 1 / 10, START_POSITION = start\<rparr>"

definition rotate_car :: "bool \<Rightarrow> bool \<Rightarrow> 'a car_scheme \<Rightarrow> 'a car_scheme" where
  "rotate_car left right c =
     (if left then c\<lparr>heading := heading c + turn_speed c\<rparr>
      else if right then c\<lparr>heading := heading c - turn_speed c\<rparr>
      else c)"

definition radians :: "real \<Rightarrow> real" where
  "radians d = d * pi / 180"

definition degrees :: "real \<Rightarrow> real" where
  "degrees r = r * 180 / pi"

text \<open>\<^verbatim>\<open>AbstractCar.update_motion\<close> (lines 94--99).\<close>

definition update_motion :: "'a car_scheme \<Rightarrow> 'a car_scheme" where
  "update_motion c =
     (let rad = radians (heading c);
          vert = cos rad * speed c;
          horiz = sin rad * speed c
      in c\<lparr>y_pos := y_pos c - vert, x_pos := x_pos c - horiz\<rparr>)"

text \<open>
  \<^verbatim>\<open>accelerate_forward\<close> and \<^verbatim>\<open>accelerate_backward\<close> end with
  \<^verbatim>\<open>self.update_motion()\<close>, which is dispatched on the class. These two definitions are
  the methods as a \<^verbatim>\<open>PlayerCar\<close> runs them; the ones a \<^verbatim>\<open>ComputerCar\<close> runs follow
  its own \<^verbatim>\<open>update_motion\<close> below.
\<close>

definition accelerate_forward :: "'a car_scheme \<Rightarrow> 'a car_scheme" where
  "accelerate_forward c =
     update_motion (c\<lparr>speed := min (speed c + acceleration c) (max_speed c)\<rparr>)"

definition accelerate_backward :: "'a car_scheme \<Rightarrow> 'a car_scheme" where
  "accelerate_backward c =
     update_motion (c\<lparr>speed := max (speed c - acceleration c) (- max_speed c / 2)\<rparr>)"

text \<open>Python's \<^verbatim>\<open>int\<close> on a float truncates towards zero.\<close>

definition py_int :: "real \<Rightarrow> int" where
  "py_int r = (if 0 \<le> r then \<lfloor>r\<rfloor> else \<lceil>r\<rceil>)"

definition collides_with :: "'a car_scheme \<Rightarrow> mask \<Rightarrow> real \<Rightarrow> real \<Rightarrow> (int \<times> int) option" where
  "collides_with c m x y = m (sprite c) (py_int (x_pos c - x), py_int (y_pos c - y))"

definition reset_state :: "'a car_scheme \<Rightarrow> 'a car_scheme" where
  "reset_state c =
     c\<lparr>x_pos := fst (START_POSITION c), y_pos := snd (START_POSITION c),
       heading := 0, speed := 0\<rparr>"

subsection \<open>PlayerCar (lines 115--127)\<close>

definition PlayerCar_init :: "assets \<Rightarrow> real \<Rightarrow> real \<Rightarrow> car" where
  "PlayerCar_init a ms ts = AbstractCar_init (PLAYER_CAR_IMAGE a) (180, 200) ms ts"

definition apply_friction :: "car \<Rightarrow> car" where
  "apply_friction c = update_motion (c\<lparr>speed := max (speed c - acceleration c / 2) 0\<rparr>)"

definition bounce :: "car \<Rightarrow> car" where
  "bounce c = update_motion (c\<lparr>speed := - speed c\<rparr>)"

subsection \<open>ComputerCar (lines 130--193)\<close>

record computer_car = car +
  waypoints :: "(int \<times> int) list"
  waypoint_index :: int

definition ComputerCar_init :: "assets \<Rightarrow> real \<Rightarrow> real \<Rightarrow> (int \<times> int) list \<Rightarrow> computer_car" where
  "ComputerCar_init a ms ts wps =
     (car.extend (AbstractCar_init (AI_CAR_IMAGE a) (150, 200) ms ts)
        (computer_car.fields wps 0))\<lparr>speed := ms\<rparr>"

text \<open>Lines 151--161: the angle towards the target, in radians.\<close>

definition desired_angle_rad :: "real \<Rightarrow> real \<Rightarrow> int \<times> int \<Rightarrow> real" where
  "desired_angle_rad x y target =
     (let target_x_pos = real_of_int (fst target);
          target_y_pos = real_of_int (snd target);
          dx = target_x_pos - x;
          dy = target_y_pos - y;
          r = (if dy = 0 then pi / 2 else arctan (dx / dy))
      in if target_y_pos > y then r + pi else r)"

text \<open>The heading \<^verbatim>\<open>math.degrees(desired_angle_rad)\<close> of line 162.\<close>

definition desired_heading :: "computer_car \<Rightarrow> int \<times> int \<Rightarrow> real" where
  "desired_heading c target = degrees (desired_angle_rad (x_pos c) (y_pos c) target)"

text \<open>
  Lines 162--170: the new heading from the heading \<open>H\<close>, the turn rate \<open>t\<close> and the desired
  heading \<open>D\<close>. The subtraction and the addition of the machine are the parameters \<open>fsub\<close>
  and \<open>fadd\<close>, so that the lines can be read with the rounded operations of IEEE doubles
  as well as with exact ones; comparisons, \<^verbatim>\<open>min\<close> and \<^verbatim>\<open>abs\<close> do not round.
\<close>

definition steer ::
  "(real \<Rightarrow> real \<Rightarrow> real) \<Rightarrow> (real \<Rightarrow> real \<Rightarrow> real) \<Rightarrow> real \<Rightarrow> real \<Rightarrow> real \<Rightarrow> real" where
  "steer fsub fadd H t D =
     (let d = fsub H D;
          angle_delta = (if d \<ge> 180 then fsub d 360 else d)
      in if angle_delta > 0 then fsub H (min t \<bar>angle_delta\<bar>)
         else fadd H (min t \<bar>angle_delta\<bar>))"

text \<open>\<^verbatim>\<open>compute_angle\<close> in the exact arithmetic of this embedding.\<close>

definition compute_angle :: "computer_car \<Rightarrow> error + computer_car" where
  "compute_angle c =
     (case list_getitem (waypoints c) (waypoint_index c) of
        Inl e \<Rightarrow> Inl e
      | Inr target \<Rightarrow>
          Inr (c\<lparr>heading :=
                 steer (-) (+) (heading c) (turn_speed c) (desired_heading c target)\<rparr>))"

text \<open>
  \<^verbatim>\<open>pygame.Rect(x, y, w, h).collidepoint(px, py)\<close>: the rectangle's corner is truncated to
  integers, its right and bottom edges are excluded.
\<close>

definition Rect_collidepoint :: "real \<Rightarrow> real \<Rightarrow> int \<Rightarrow> int \<Rightarrow> int \<times> int \<Rightarrow> bool" where
  "Rect_collidepoint x y w h pt =
     (py_int x \<le> fst pt \<and> fst pt < py_int x + w \<and> py_int y \<le> snd pt \<and> snd pt < py_int y + h)"

definition advance_waypoint :: "computer_car \<Rightarrow> error + computer_car" where
  "advance_waypoint c =
     (case list_getitem (waypoints c) (waypoint_index c) of
        Inl e \<Rightarrow> Inl e
      | Inr target_idx \<Rightarrow>
          Inr (if Rect_collidepoint (x_pos c) (y_pos c) (get_width (sprite c))
                    (get_height (sprite c)) target_idx
               then c\<lparr>waypoint_index := waypoint_index c + 1\<rparr>
               else c))"

text \<open>\<^verbatim>\<open>ComputerCar.update_motion\<close> (lines 181--187); the last step is the base class's.\<close>

definition ComputerCar_update_motion :: "computer_car \<Rightarrow> error + computer_car" where
  "ComputerCar_update_motion c =
     (if waypoint_index c \<ge> int (length (waypoints c)) then Inr c
      else case compute_angle c of
             Inl e \<Rightarrow> Inl e
           | Inr c1 \<Rightarrow>
               (case advance_waypoint c1 of
                  Inl e \<Rightarrow> Inl e
                | Inr c2 \<Rightarrow> Inr (update_motion c2)))"

definition ComputerCar_accelerate_forward :: "computer_car \<Rightarrow> error + computer_car" where
  "ComputerCar_accelerate_forward c =
     ComputerCar_update_motion (c\<lparr>speed := min (speed c + acceleration c) (max_speed c)\<rparr>)"

definition ComputerCar_accelerate_backward :: "computer_car \<Rightarrow> error + computer_car" where
  "ComputerCar_accelerate_backward c =
     ComputerCar_update_motion (c\<lparr>speed := max (speed c - acceleration c) (- max_speed c / 2)\<rparr>)"

definition ComputerCar_advance_level :: "int \<Rightarrow> computer_car \<Rightarrow> computer_car" where
  "ComputerCar_advance_level stg c =
     (let c1 = reset_state c
      in c1\<lparr>speed := max_speed c1 + (real_of_int stg - 1) * 0.2, waypoint_index := 0\<rparr>)"

subsection \<open>Input (lines 216--235)\<close>

record keys =
  K_a :: bool
  K_d :: bool
  K_w :: bool
  K_s :: bool

definition move_player :: "keys \<Rightarrow> car \<Rightarrow> car" where
  "move_player k player =
     (let p1 = (if K_a k then rotate_car True False player else player);
          p2 = (if K_d k then rotate_car False True p1 else p1);
          p3 = (if K_w k then accelerate_forward p2 else p2);
          p4 = (if K_s k then accelerate_backward p3 else p3);
          moved = (K_w k \<or> K_s k)
      in if \<not> moved then apply_friction p4 else p4)"

subsection \<open>Collisions and progression (lines 238--257)\<close>

text \<open>
  The handler runs three checks one after the other on the player, the opponent and the
  race state; each check is a function on that triple and the handler is their composition.
\<close>

type_synonym game = "car \<times> computer_car \<times> GameInfo"

text \<open>Lines 239--240.\<close>

fun border_check :: "assets \<Rightarrow> game \<Rightarrow> game" where
  "border_check a (player, opponent, race_state) =
     (if collides_with player (TRACK_EDGE_MASK a) 0 0 \<noteq> None
      then (bounce player, opponent, race_state)
      else (player, opponent, race_state))"

text \<open>Lines 241--248.\<close>

fun opponent_finish_check :: "assets \<Rightarrow> game \<Rightarrow> game" where
  "opponent_finish_check a (player, opponent, race_state) =
     (if collides_with opponent (FINISH_LINE_MASK a) (fst FINISH_POS) (snd FINISH_POS) \<noteq> None
      then (reset_state player, reset_state opponent, GameInfo_reset_state race_state)
      else (player, opponent, race_state))"

text \<open>Lines 250--257.\<close>

fun player_finish_check :: "assets \<Rightarrow> game \<Rightarrow> game" where
  "player_finish_check a (player, opponent, race_state) =
     (case collides_with player (FINISH_LINE_MASK a) (fst FINISH_POS) (snd FINISH_POS) of
        None \<Rightarrow> (player, opponent, race_state)
      | Some poi \<Rightarrow>
          if snd poi = 0 then (bounce player, opponent, race_state)
          else (let r1 = GameInfo_advance_level race_state
                in (reset_state player, ComputerCar_advance_level (stage r1) opponent, r1)))"

definition handle_collision :: "assets \<Rightarrow> game \<Rightarrow> game" where
  "handle_collision a g = player_finish_check a (opponent_finish_check a (border_check a g))"

subsection \<open>One tick of the main loop (lines 296--305)\<close>

text \<open>
  Input, the opponent's motion update, the collision handler and the end-of-game reset, in
  the order of the loop body. An exception of the motion update ends the tick.
\<close>

fun main_loop_step :: "assets \<Rightarrow> keys \<Rightarrow> game \<Rightarrow> error + game" where
  "main_loop_step a k (player, opponent, race_state) =
     (let p1 = move_player k player
      in case ComputerCar_update_motion opponent of
           Inl e \<Rightarrow> Inl e
         | Inr o1 \<Rightarrow>
             (case handle_collision a (p1, o1, race_state) of
                (p2, o2, r2) \<Rightarrow>
                  Inr (if is_game_finished r2
                       then (reset_state p2, reset_state o2, GameInfo_reset_state r2)
                       else (p2, o2, r2))))"

text \<open>
  The tick is one in which the player completes a stage: the opponent's motion update
  returns, and the player's finish-line check (lines 250--257), which runs after the input,
  the border check and the opponent's finish-line check, finds an overlap point whose
  y-coordinate is not 0.
\<close>

fun player_completes_stage :: "assets \<Rightarrow> keys \<Rightarrow> game \<Rightarrow> bool" where
  "player_completes_stage a k (player, opponent, race_state) =
     (case ComputerCar_update_motion opponent of
        Inl e \<Rightarrow> False
      | Inr o1 \<Rightarrow>
          (case opponent_finish_check a (border_check a (move_player k player, o1, race_state)) of
             (p1, o2, r1) \<Rightarrow>
               (case collides_with p1 (FINISH_LINE_MASK a) (fst FINISH_POS) (snd FINISH_POS) of
                  None \<Rightarrow> False
                | Some poi \<Rightarrow> snd poi \<noteq> 0)))"

subsection \<open>The speed bounds and the opponent's reachable states\<close>

definition speed_in_bounds :: "'a car_scheme \<Rightarrow> bool" where
  "speed_in_bounds c = (- max_speed c / 2 \<le> speed c \<and> speed c \<le> max_speed c)"

text \<open>
  The states of a \<^verbatim>\<open>ComputerCar\<close> that calls of its methods can produce from a freshly
  constructed one. A call that raises produces no state.
\<close>

inductive reachable :: "computer_car \<Rightarrow> bool" where
  r_init: "reachable (ComputerCar_init a ms ts wps)"
| r_rotate: "reachable c \<Longrightarrow> reachable (rotate_car l r c)"
| r_forward: "reachable c \<Longrightarrow> ComputerCar_accelerate_forward c = Inr c' \<Longrightarrow> reachable c'"
| r_backward: "reachable c \<Longrightarrow> ComputerCar_accelerate_backward c = Inr c' \<Longrightarrow> reachable c'"
| r_motion: "reachable c \<Longrightarrow> ComputerCar_update_motion c = Inr c' \<Longrightarrow> reachable c'"
| r_angle: "reachable c \<Longrightarrow> compute_angle c = Inr c' \<Longrightarrow> reachable c'"
| r_waypoint: "reachable c \<Longrightarrow> advance_waypoint c = Inr c' \<Longrightarrow> reachable c'"
| r_reset: "reachable c \<Longrightarrow> reachable (reset_state c)"
| r_level: "reachable c \<Longrightarrow> reachable (ComputerCar_advance_level stg c)"

text \<open>The waypoint index is a position in the list or one past its end.\<close>

definition index_in_range :: "computer_car \<Rightarrow> bool" where
  "index_in_range c = (0 \<le> waypoint_index c \<and> waypoint_index c \<le> int (length (waypoints c)))"

subsection \<open>Concrete assets and cars\<close>

text \<open>
  Two sets of assets for evaluating the definitions: masks that nothing touches, and masks
  where the finish line meets the named car image at the given point.
\<close>

definition red_car :: surface where
  "red_car = \<lparr>file_name = ''imgs/red-car.png'', get_width = 19, get_height = 38\<rparr>"

definition green_car :: surface where
  "green_car = \<lparr>file_name = ''imgs/green-car.png'', get_width = 19, get_height = 38\<rparr>"

definition clear_assets :: assets where
  "clear_assets = \<lparr>TRACK_EDGE_MASK = (\<lambda>s off. None), FINISH_LINE_MASK = (\<lambda>s off. None),
     PLAYER_CAR_IMAGE = red_car, AI_CAR_IMAGE = green_car\<rparr>"

definition finish_assets :: "string \<Rightarrow> int \<times> int \<Rightarrow> assets" where
  "finish_assets img poi = \<lparr>TRACK_EDGE_MASK = (\<lambda>s off. None),
     FINISH_LINE_MASK = (\<lambda>s off. if file_name s = img then Some poi else None),
     PLAYER_CAR_IMAGE = red_car, AI_CAR_IMAGE = green_car\<rparr>"

text \<open>The two cars and the race state of the program (lines 265--267).\<close>

definition player0 :: "assets \<Rightarrow> car" where
  "player0 a = PlayerCar_init a 4 4"

definition opponent0 :: "assets \<Rightarrow> computer_car" where
  "opponent0 a = ComputerCar_init a 2 4 WAYPOINTS"

definition race_state0 :: GameInfo where
  "race_state0 = GameInfo_init 1"

text \<open>
  States of play: the player at full speed after forty ticks of acceleration from the start,
  the player arriving at the finish line from below, the opponent below its first waypoint,
  and the opponent standing where it passed its last waypoint.
\<close>

definition player_fast :: "assets \<Rightarrow> car" where
  "player_fast a = (player0 a)\<lparr>y_pos := 118, speed := 4\<rparr>"

definition player_arriving :: "assets \<Rightarrow> car" where
  "player_arriving a = (player0 a)\<lparr>y_pos := 264, speed := 2\<rparr>"

definition opponent_aligned :: "assets \<Rightarrow> computer_car" where
  "opponent_aligned a = (opponent0 a)\<lparr>x_pos := 175\<rparr>"

definition opponent_exhausted :: "assets \<Rightarrow> computer_car" where
  "opponent_exhausted a = (opponent0 a)\<lparr>x_pos := 178, y_pos := 258, waypoint_index := 22\<rparr>"

definition race_running :: "int \<Rightarrow> GameInfo" where
  "race_running st = start_stage 0 (GameInfo_init st)"

definition no_keys :: keys where
  "no_keys = \<lparr>K_a = False, K_d = False, K_w = False, K_s = False\<rparr>"

definition w_key :: keys where
  "w_key = \<lparr>K_a = False, K_d = False, K_w = True, K_s = False\<rparr>"

text \<open>The opponent half-way to its second waypoint, and the opponent on its first one.\<close>

definition opponent_midlap :: "assets \<Rightarrow> computer_car" where
  "opponent_midlap a = (opponent0 a)\<lparr>x_pos := 110, y_pos := 100, waypoint_index := 1\<rparr>"

definition opponent_on_waypoint :: "assets \<Rightarrow> computer_car" where
  "opponent_on_waypoint a = (opponent0 a)\<lparr>x_pos := 175, y_pos := 100\<rparr>"

text \<open>An opponent built with a single waypoint, straight above its start.\<close>

definition opponent_straight :: computer_car where
  "opponent_straight = ComputerCar_init clear_assets 2 4 [(150, 119)]"

text \<open>The opponent below its first waypoint with a given heading.\<close>

definition opponent_heading :: "real \<Rightarrow> computer_car" where
  "opponent_heading h = (opponent_aligned clear_assets)\<lparr>heading := h\<rparr>"

text \<open>
  A subtraction and an addition that are off by one eighth of the exact result, for
  evaluating \<open>steer\<close> with operations that are not exact.
\<close>

definition skew_sub :: "real \<Rightarrow> real \<Rightarrow> real" where
  "skew_sub x y = (x - y) * (9 / 8)"

definition skew_add :: "real \<Rightarrow> real \<Rightarrow> real" where
  "skew_add x y = (x + y) * (9 / 8)"

section \<open>Properties\<close>

subsection \<open>Auxiliary facts\<close>

lemma opponent0_fields:
  "opponent0 a = \<lparr>sprite = AI_CAR_IMAGE a, max_speed = 2, speed = 2, turn_speed = 4, heading = 0,
     x_pos = 150, y_pos = 200, acceleration = 1 / 10, START_POSITION = (150, 200),
     waypoints = WAYPOINTS, waypoint_index = 0\<rparr>"
  by (simp add: opponent0_def ComputerCar_init_def AbstractCar_init_def car.defs computer_car.defs)

lemma player0_fields:
  "player0 a = \<lparr>sprite = PLAYER_CAR_IMAGE a, max_speed = 4, speed = 0, turn_speed = 4, heading = 0,
     x_pos = 180, y_pos = 200, acceleration = 1 / 10, START_POSITION = (180, 200)\<rparr>"
  by (simp add: player0_def PlayerCar_init_def AbstractCar_init_def)

lemma race_running_fields:
  "race_running st = \<lparr>stage = st, in_progress = True, stage_start_time = 0\<rparr>"
  by (simp add: race_running_def start_stage_def GameInfo_init_def)

lemma speed_update_motion: "speed (update_motion c) = speed c"
  by (simp add: update_motion_def Let_def)

lemma max_speed_update_motion: "max_speed (update_motion c) = max_speed c"
  by (simp add: update_motion_def Let_def)

lemma update_motion_heading0:
  "heading c = 0 \<Longrightarrow> update_motion c = c\<lparr>y_pos := y_pos c - speed c, x_pos := x_pos c\<rparr>"
  by (simp add: update_motion_def radians_def Let_def)

lemma list_getitem_in_range:
  "0 \<le> i \<Longrightarrow> i < int (length xs) \<Longrightarrow> list_getitem xs i = Inr (xs ! nat i)"
  by (simp add: list_getitem_def)

lemma ComputerCar_update_motion_speed:
  "ComputerCar_update_motion c = Inr c' \<Longrightarrow> speed c' = speed c \<and> max_speed c' = max_speed c"
  by (auto simp: ComputerCar_update_motion_def compute_angle_def advance_waypoint_def
        update_motion_def Let_def split: if_splits sum.splits)

lemma ComputerCar_update_motion_total:
  "0 \<le> waypoint_index c \<Longrightarrow> \<exists>c'. ComputerCar_update_motion c = Inr c'"
  by (simp add: ComputerCar_update_motion_def compute_angle_def advance_waypoint_def
      list_getitem_in_range Let_def)

text \<open>One motion update of the opponent standing straight below its first waypoint.\<close>

lemma aligned_update_motion:
  "ComputerCar_update_motion (opponent_aligned clear_assets)
     = Inr ((opponent_aligned clear_assets)\<lparr>y_pos := 198\<rparr>)"
  by (simp add: opponent_aligned_def opponent0_fields ComputerCar_update_motion_def WAYPOINTS_def
      compute_angle_def steer_def desired_heading_def list_getitem_def desired_angle_rad_def
      degrees_def advance_waypoint_def
      Rect_collidepoint_def py_int_def update_motion_heading0 Let_def clear_assets_def
      green_car_def)

lemma aligned_accelerate_forward:
  "ComputerCar_accelerate_forward (opponent_aligned clear_assets)
     = Inr ((opponent_aligned clear_assets)\<lparr>y_pos := 198\<rparr>)"
proof -
  have "(opponent_aligned clear_assets)\<lparr>speed := min (speed (opponent_aligned clear_assets)
          + acceleration (opponent_aligned clear_assets)) (max_speed (opponent_aligned clear_assets))\<rparr>
        = opponent_aligned clear_assets"
    by (simp add: opponent_aligned_def opponent0_fields)
  then show ?thesis
    by (simp only: ComputerCar_accelerate_forward_def aligned_update_motion)
qed

subsection \<open>Race state: results\<close>

text \<open>
  C6. For every race state, \<^verbatim>\<open>is_game_finished\<close> is true exactly when the stage is greater
  than 10, and \<^verbatim>\<open>advance_level\<close> adds exactly 1 to the stage, sets \<^verbatim>\<open>in_progress\<close> to
  false and leaves the start time, the only other field, as it was.
\<close>

theorem GameInfo_finished_and_advance:
  "is_game_finished g = (stage g > 10)
   \<and> stage (GameInfo_advance_level g) = stage g + 1
   \<and> in_progress (GameInfo_advance_level g) = False
   \<and> stage_start_time (GameInfo_advance_level g) = stage_start_time g
   \<and> GameInfo_advance_level g = \<lparr>stage = stage g + 1, in_progress = False,
        stage_start_time = stage_start_time g\<rparr>"
  by (simp add: is_game_finished_def LEVELS_def GameInfo_advance_level_def)

subsection \<open>Speed bounds\<close>

text \<open>
  C1, as amended. For either car, each of \<^verbatim>\<open>rotate\<close>, \<^verbatim>\<open>accelerate_forward\<close>,
  \<^verbatim>\<open>accelerate_backward\<close>, \<^verbatim>\<open>apply_friction\<close>, \<^verbatim>\<open>update_motion\<close> and
  \<^verbatim>\<open>reset_state\<close> keeps the speed within \<open>[-max_speed/2, max_speed]\<close> when it was there
  before the call (the acceleration being non-negative, as the constructor's 0.1 is).
  \<^verbatim>\<open>bounce\<close> and the opponent's \<^verbatim>\<open>advance_level\<close> are not in the list.
\<close>

theorem speed_bounds_preserved:
  fixes p :: car and c :: computer_car
  assumes "speed_in_bounds p" and "0 \<le> acceleration p"
      and "speed_in_bounds c" and "0 \<le> acceleration c"
  shows "speed_in_bounds (rotate_car l r p) \<and> speed_in_bounds (accelerate_forward p)
     \<and> speed_in_bounds (accelerate_backward p) \<and> speed_in_bounds (apply_friction p)
     \<and> speed_in_bounds (update_motion p) \<and> speed_in_bounds (reset_state p)
     \<and> speed_in_bounds (rotate_car l r c) \<and> speed_in_bounds (reset_state c)
     \<and> (\<forall>c'. ComputerCar_accelerate_forward c = Inr c' \<longrightarrow> speed_in_bounds c')
     \<and> (\<forall>c'. ComputerCar_accelerate_backward c = Inr c' \<longrightarrow> speed_in_bounds c')
     \<and> (\<forall>c'. ComputerCar_update_motion c = Inr c' \<longrightarrow> speed_in_bounds c')"
proof -
  have p1: "speed_in_bounds (rotate_car l r p)" "speed_in_bounds (rotate_car l r c)"
    using assms by (simp_all add: speed_in_bounds_def rotate_car_def)
  have p2: "speed_in_bounds (accelerate_forward p)" "speed_in_bounds (accelerate_backward p)"
     "speed_in_bounds (apply_friction p)" "speed_in_bounds (update_motion p)"
    using assms(1,2)
    by (auto simp: accelerate_forward_def accelerate_backward_def apply_friction_def
          speed_update_motion max_speed_update_motion speed_in_bounds_def)
  have p3: "speed_in_bounds (reset_state p)" "speed_in_bounds (reset_state c)"
    using assms by (auto simp: speed_in_bounds_def reset_state_def)
  have p4: "speed_in_bounds c'" if "ComputerCar_accelerate_forward c = Inr c'" for c'
    using ComputerCar_update_motion_speed[OF that[unfolded ComputerCar_accelerate_forward_def]]
      assms(3,4)
    by (auto simp: speed_in_bounds_def)
  have p5: "speed_in_bounds c'" if "ComputerCar_accelerate_backward c = Inr c'" for c'
    using ComputerCar_update_motion_speed[OF that[unfolded ComputerCar_accelerate_backward_def]]
      assms(3,4)
    by (auto simp: speed_in_bounds_def)
  have p6: "speed_in_bounds c'" if "ComputerCar_update_motion c = Inr c'" for c'
    using ComputerCar_update_motion_speed[OF that] assms(3)
    by (auto simp: speed_in_bounds_def)
  show ?thesis using p1 p2 p3 p4 p5 p6 by blast
qed

theorem speed_bounds_preserved_witness:
  "speed_in_bounds (player_fast clear_assets) \<and> 0 \<le> acceleration (player_fast clear_assets)
   \<and> speed_in_bounds (opponent_aligned clear_assets)
   \<and> 0 \<le> acceleration (opponent_aligned clear_assets)
   \<and> speed_in_bounds (accelerate_forward (player_fast clear_assets))
   \<and> speed_in_bounds (apply_friction (player_fast clear_assets))
   \<and> ComputerCar_update_motion (opponent_aligned clear_assets)
        = Inr ((opponent_aligned clear_assets)\<lparr>y_pos := 198\<rparr>)
   \<and> speed_in_bounds ((opponent_aligned clear_assets)\<lparr>y_pos := 198\<rparr>)"
proof -
  have h1: "speed_in_bounds (player_fast clear_assets)"
    and h2: "0 \<le> acceleration (player_fast clear_assets)"
    by (simp_all add: player_fast_def player0_fields speed_in_bounds_def)
  have h3: "speed_in_bounds (opponent_aligned clear_assets)"
    and h4: "0 \<le> acceleration (opponent_aligned clear_assets)"
    by (simp_all add: opponent_aligned_def opponent0_fields speed_in_bounds_def)
  show ?thesis
    using speed_bounds_preserved [OF h1 h2 h3 h4, of True False] h1 h2 h3 h4
      aligned_update_motion
    by blast
qed

text \<open>
  The claim as stated fails for \<^verbatim>\<open>bounce\<close> and for \<^verbatim>\<open>advance_level\<close>: the player at full
  speed 4 bounces to speed -4, below -2, and the opponent entering stage 2 gets speed 2.2,
  above its maximum 2.
\<close>

theorem speed_bounds_counterexample:
  "speed_in_bounds (player_fast clear_assets)
   \<and> \<not> speed_in_bounds (bounce (player_fast clear_assets))
   \<and> speed_in_bounds (opponent0 clear_assets)
   \<and> \<not> speed_in_bounds (ComputerCar_advance_level 2 (opponent0 clear_assets))"
  by (simp add: speed_in_bounds_def bounce_def speed_update_motion max_speed_update_motion
      player_fast_def player0_fields opponent0_fields ComputerCar_advance_level_def
      reset_state_def Let_def)

subsection \<open>Acceleration\<close>

text \<open>
  C8, as amended. For every car state, after \<^verbatim>\<open>accelerate_forward\<close> the speed is
  \<open>min (speed + acceleration) max_speed\<close> and is at most \<open>max_speed\<close>; it is not below the
  previous speed provided the previous speed was at most \<open>max_speed\<close> (and the acceleration is
  non-negative, as the constructor's 0.1 is). This holds for the method as a player car
  runs it and as an opponent car runs it.
\<close>

theorem accelerate_forward_speed:
  fixes p :: car and c :: computer_car
  shows "speed (accelerate_forward p) = min (speed p + acceleration p) (max_speed p)
     \<and> speed (accelerate_forward p) \<le> max_speed p
     \<and> (0 \<le> acceleration p \<and> speed p \<le> max_speed p
          \<longrightarrow> speed p \<le> speed (accelerate_forward p))
     \<and> (\<forall>c'. ComputerCar_accelerate_forward c = Inr c' \<longrightarrow>
           speed c' = min (speed c + acceleration c) (max_speed c)
         \<and> speed c' \<le> max_speed c
         \<and> (0 \<le> acceleration c \<and> speed c \<le> max_speed c \<longrightarrow> speed c \<le> speed c'))"
proof -
  have a: "speed (accelerate_forward p) = min (speed p + acceleration p) (max_speed p)"
    by (simp add: accelerate_forward_def speed_update_motion)
  have b: "speed c' = min (speed c + acceleration c) (max_speed c)"
    if "ComputerCar_accelerate_forward c = Inr c'" for c'
    using ComputerCar_update_motion_speed[OF that[unfolded ComputerCar_accelerate_forward_def]]
    by simp
  show ?thesis using a b by auto
qed

theorem accelerate_forward_speed_witness:
  "0 \<le> acceleration (player0 clear_assets)
   \<and> speed (player0 clear_assets) \<le> max_speed (player0 clear_assets)
   \<and> speed (player0 clear_assets) \<le> speed (accelerate_forward (player0 clear_assets))
   \<and> speed (accelerate_forward (player0 clear_assets)) = 1 / 10
   \<and> 0 \<le> acceleration (opponent_aligned clear_assets)
   \<and> speed (opponent_aligned clear_assets) \<le> max_speed (opponent_aligned clear_assets)
   \<and> ComputerCar_accelerate_forward (opponent_aligned clear_assets)
        = Inr ((opponent_aligned clear_assets)\<lparr>y_pos := 198\<rparr>)
   \<and> speed (opponent_aligned clear_assets) \<le> speed ((opponent_aligned clear_assets)\<lparr>y_pos := 198\<rparr>)"
proof -
  have h1: "0 \<le> acceleration (player0 clear_assets)
     \<and> speed (player0 clear_assets) \<le> max_speed (player0 clear_assets)"
    by (simp add: player0_fields)
  have h2: "0 \<le> acceleration (opponent_aligned clear_assets)
     \<and> speed (opponent_aligned clear_assets) \<le> max_speed (opponent_aligned clear_assets)"
    by (simp add: opponent_aligned_def opponent0_fields)
  have v: "min (speed (player0 clear_assets) + acceleration (player0 clear_assets))
      (max_speed (player0 clear_assets)) = 1 / 10"
    by (simp add: player0_fields)
  show ?thesis
    using accelerate_forward_speed [of "player0 clear_assets" "opponent_aligned clear_assets"]
      h1 h2 v aligned_accelerate_forward
    by simp
qed

text \<open>
  The claim as stated fails on a car whose speed is above its maximum: the opponent
  entering stage 2 has speed 2.2 and maximum 2, and \<^verbatim>\<open>accelerate_forward\<close> lowers its
  speed to 2.
\<close>

theorem accelerate_forward_counterexample:
  "speed (ComputerCar_advance_level 2 (opponent0 clear_assets)) = 2.2
   \<and> map_sum id speed
        (ComputerCar_accelerate_forward (ComputerCar_advance_level 2 (opponent0 clear_assets)))
      = Inr 2"
proof -
  let ?c = "ComputerCar_advance_level 2 (opponent0 clear_assets)"
  have s: "speed ?c = 2.2" "max_speed ?c = 2" "acceleration ?c = 1 / 10" "waypoint_index ?c = 0"
    by (simp_all add: opponent0_fields ComputerCar_advance_level_def reset_state_def Let_def)
  obtain c' where c': "ComputerCar_accelerate_forward ?c = Inr c'"
    using ComputerCar_update_motion_total
      [of "?c\<lparr>speed := min (speed ?c + acceleration ?c) (max_speed ?c)\<rparr>"] s
    unfolding ComputerCar_accelerate_forward_def by auto
  have "speed c' = 2"
    using ComputerCar_update_motion_speed[OF c'[unfolded ComputerCar_accelerate_forward_def]] s
    by simp
  with c' s show ?thesis by simp
qed

subsection \<open>The opponent with no waypoint left\<close>

text \<open>
  C9. When the opponent's waypoint index is greater than or equal to the number of
  waypoints, its \<^verbatim>\<open>update_motion\<close> returns the car as it was: position, heading, speed,
  waypoint index and every other field are unchanged.
\<close>

theorem exhausted_update_motion:
  "int (length (waypoints c)) \<le> waypoint_index c \<Longrightarrow> ComputerCar_update_motion c = Inr c"
  by (simp add: ComputerCar_update_motion_def)

theorem exhausted_update_motion_witness:
  "int (length (waypoints (opponent_exhausted clear_assets)))
     \<le> waypoint_index (opponent_exhausted clear_assets)
   \<and> ComputerCar_update_motion (opponent_exhausted clear_assets)
       = Inr (opponent_exhausted clear_assets)"
proof -
  have h: "int (length (waypoints (opponent_exhausted clear_assets)))
     \<le> waypoint_index (opponent_exhausted clear_assets)"
    by (simp add: opponent_exhausted_def opponent0_fields WAYPOINTS_def)
  show ?thesis using h exhausted_update_motion [OF h] by simp
qed

subsection \<open>The collision handler\<close>

text \<open>
  C10. If the player's mask does not overlap the track border, the opponent's mask does
  not overlap the finish line at the finish offset and the player's mask does not overlap
  the finish line at the finish offset, then \<^verbatim>\<open>handle_collision\<close> leaves the player, the
  opponent and the race state unchanged.
\<close>

theorem handle_collision_no_overlap:
  assumes "collides_with p (TRACK_EDGE_MASK a) 0 0 = None"
      and "collides_with c (FINISH_LINE_MASK a) (fst FINISH_POS) (snd FINISH_POS) = None"
      and "collides_with p (FINISH_LINE_MASK a) (fst FINISH_POS) (snd FINISH_POS) = None"
  shows "handle_collision a (p, c, r) = (p, c, r)"
  using assms by (simp add: handle_collision_def)

theorem handle_collision_no_overlap_witness:
  "collides_with (player_fast clear_assets) (TRACK_EDGE_MASK clear_assets) 0 0 = None
   \<and> collides_with (opponent_aligned clear_assets) (FINISH_LINE_MASK clear_assets)
        (fst FINISH_POS) (snd FINISH_POS) = None
   \<and> collides_with (player_fast clear_assets) (FINISH_LINE_MASK clear_assets)
        (fst FINISH_POS) (snd FINISH_POS) = None
   \<and> handle_collision clear_assets
        (player_fast clear_assets, opponent_aligned clear_assets, race_running 1)
      = (player_fast clear_assets, opponent_aligned clear_assets, race_running 1)"
proof -
  have h1: "collides_with (player_fast clear_assets) (TRACK_EDGE_MASK clear_assets) 0 0 = None"
    and h2: "collides_with (opponent_aligned clear_assets) (FINISH_LINE_MASK clear_assets)
        (fst FINISH_POS) (snd FINISH_POS) = None"
    and h3: "collides_with (player_fast clear_assets) (FINISH_LINE_MASK clear_assets)
        (fst FINISH_POS) (snd FINISH_POS) = None"
    by (simp_all add: collides_with_def clear_assets_def)
  show ?thesis
    using handle_collision_no_overlap [OF h1 h2 h3, of "race_running 1"] h1 h2 h3 by simp
qed

text \<open>
  C2. The player's finish-line check is the third step of the handler; \<open>(p1, c1, r1)\<close> is
  the state in which it runs, that is, the handler's input after the border check and the
  opponent's finish-line check. When the player's mask overlaps the finish-line mask at the
  finish offset there, at the point \<open>(px, py)\<close>: if \<open>py = 0\<close> the player bounces (speed
  negated) and the opponent and the race state, so the stage, stay as they are; if
  \<open>py \<noteq> 0\<close>, in particular if \<open>py > 0\<close>, the stage grows by exactly 1, the player is at its
  start position with heading 0 and speed 0, the opponent's speed is
  \<open>max_speed + (new stage - 1) * 0.2\<close> and its waypoint index is 0; from stage 1 the
  opponent's speed is \<open>max_speed + 0.2\<close>. When neither of the two earlier checks fires,
  \<open>(p1, c1, r1)\<close> is the handler's input.
\<close>

theorem player_finish_line:
  assumes "opponent_finish_check a (border_check a (p, c, r)) = (p1, c1, r1)"
      and "collides_with p1 (FINISH_LINE_MASK a) (fst FINISH_POS) (snd FINISH_POS) = Some (px, py)"
  shows "(py = 0 \<longrightarrow> handle_collision a (p, c, r) = (bounce p1, c1, r1)
            \<and> speed (bounce p1) = - speed p1)
       \<and> (py \<noteq> 0 \<longrightarrow> handle_collision a (p, c, r) =
             (reset_state p1, ComputerCar_advance_level (stage r1 + 1) c1,
              GameInfo_advance_level r1)
           \<and> stage (GameInfo_advance_level r1) = stage r1 + 1
           \<and> x_pos (reset_state p1) = fst (START_POSITION p1)
           \<and> y_pos (reset_state p1) = snd (START_POSITION p1)
           \<and> heading (reset_state p1) = 0 \<and> speed (reset_state p1) = 0
           \<and> speed (ComputerCar_advance_level (stage r1 + 1) c1)
               = max_speed c1 + (real_of_int (stage r1 + 1) - 1) * 0.2
           \<and> waypoint_index (ComputerCar_advance_level (stage r1 + 1) c1) = 0
           \<and> (stage r1 = 1 \<longrightarrow>
                speed (ComputerCar_advance_level (stage r1 + 1) c1) = max_speed c1 + 0.2))
       \<and> (collides_with p (TRACK_EDGE_MASK a) 0 0 = None
            \<and> collides_with c (FINISH_LINE_MASK a) (fst FINISH_POS) (snd FINISH_POS) = None
          \<longrightarrow> (p1, c1, r1) = (p, c, r))"
proof -
  have zero: "handle_collision a (p, c, r) = (bounce p1, c1, r1)" if "py = 0"
    using assms that by (simp add: handle_collision_def)
  have pos: "handle_collision a (p, c, r) =
      (reset_state p1, ComputerCar_advance_level (stage r1 + 1) c1, GameInfo_advance_level r1)"
    if "py \<noteq> 0"
    using assms that by (simp add: handle_collision_def Let_def GameInfo_advance_level_def)
  have b: "speed (bounce p1) = - speed p1"
    by (simp add: bounce_def speed_update_motion)
  have g: "stage (GameInfo_advance_level r1) = stage r1 + 1"
    by (simp add: GameInfo_advance_level_def)
  have rs: "x_pos (reset_state p1) = fst (START_POSITION p1)"
    "y_pos (reset_state p1) = snd (START_POSITION p1)"
    "heading (reset_state p1) = 0" "speed (reset_state p1) = 0"
    by (simp_all add: reset_state_def)
  have al: "speed (ComputerCar_advance_level (stage r1 + 1) c1)
      = max_speed c1 + (real_of_int (stage r1 + 1) - 1) * 0.2"
    "waypoint_index (ComputerCar_advance_level (stage r1 + 1) c1) = 0"
    by (simp_all add: ComputerCar_advance_level_def reset_state_def Let_def)
  have one: "speed (ComputerCar_advance_level (stage r1 + 1) c1) = max_speed c1 + 0.2"
    if "stage r1 = 1"
    using al(1) that by simp
  have same: "(p1, c1, r1) = (p, c, r)"
    if "collides_with p (TRACK_EDGE_MASK a) 0 0 = None"
      and "collides_with c (FINISH_LINE_MASK a) (fst FINISH_POS) (snd FINISH_POS) = None"
    using assms(1) that by simp
  show ?thesis using zero pos b g rs al one same by blast
qed

lemma start_reaches_player_check:
  "opponent_finish_check (finish_assets ''imgs/red-car.png'' poi)
     (border_check (finish_assets ''imgs/red-car.png'' poi)
        (player0 (finish_assets ''imgs/red-car.png'' poi),
         opponent0 (finish_assets ''imgs/red-car.png'' poi), race_running 1))
   = (player0 (finish_assets ''imgs/red-car.png'' poi),
      opponent0 (finish_assets ''imgs/red-car.png'' poi), race_running 1)"
  by (simp add: collides_with_def finish_assets_def player0_fields opponent0_fields
      red_car_def green_car_def)

lemma start_player_overlap:
  "collides_with (player0 (finish_assets ''imgs/red-car.png'' poi))
     (FINISH_LINE_MASK (finish_assets ''imgs/red-car.png'' poi)) (fst FINISH_POS) (snd FINISH_POS)
   = Some poi"
  by (simp add: collides_with_def finish_assets_def player0_fields red_car_def)

theorem player_finish_line_witness:
  "collides_with (player0 (finish_assets ''imgs/red-car.png'' (3, 0)))
     (FINISH_LINE_MASK (finish_assets ''imgs/red-car.png'' (3, 0)))
     (fst FINISH_POS) (snd FINISH_POS) = Some (3, 0)
   \<and> handle_collision (finish_assets ''imgs/red-car.png'' (3, 0))
       (player0 (finish_assets ''imgs/red-car.png'' (3, 0)),
        opponent0 (finish_assets ''imgs/red-car.png'' (3, 0)), race_running 1)
     = (bounce (player0 (finish_assets ''imgs/red-car.png'' (3, 0))),
        opponent0 (finish_assets ''imgs/red-car.png'' (3, 0)), race_running 1)
   \<and> collides_with (player0 (finish_assets ''imgs/red-car.png'' (3, 5)))
     (FINISH_LINE_MASK (finish_assets ''imgs/red-car.png'' (3, 5)))
     (fst FINISH_POS) (snd FINISH_POS) = Some (3, 5)
   \<and> stage (snd (snd (handle_collision (finish_assets ''imgs/red-car.png'' (3, 5))
       (player0 (finish_assets ''imgs/red-car.png'' (3, 5)),
        opponent0 (finish_assets ''imgs/red-car.png'' (3, 5)), race_running 1)))) = 2
   \<and> speed (fst (snd (handle_collision (finish_assets ''imgs/red-car.png'' (3, 5))
       (player0 (finish_assets ''imgs/red-car.png'' (3, 5)),
        opponent0 (finish_assets ''imgs/red-car.png'' (3, 5)), race_running 1)))) = 2.2"
proof -
  have s: "stage (race_running 1) = 1"
    "max_speed (opponent0 (finish_assets ''imgs/red-car.png'' (3, 5))) = 2"
    by (simp_all add: race_running_fields opponent0_fields)
  show ?thesis
    using player_finish_line [OF start_reaches_player_check [of "(3, 0)"]
          start_player_overlap [of "(3, 0)"]]
      player_finish_line [OF start_reaches_player_check [of "(3, 5)"]
          start_player_overlap [of "(3, 5)"]]
      start_player_overlap [of "(3, 0)"] start_player_overlap [of "(3, 5)"] s
    by simp
qed

text \<open>
  C3. When the opponent's mask overlaps the finish-line mask the claim has the race state
  and both cars back in the configuration of the program's start. The handler calls the
  base class's \<^verbatim>\<open>reset_state\<close> on the opponent, which sets its speed to 0 and leaves its
  waypoint index alone, whereas the constructor sets the speed to \<open>max_speed\<close> and the index
  to 0, and \<^verbatim>\<open>advance_level\<close> sets both anew after its own call of \<^verbatim>\<open>reset_state\<close>. Evaluated
  in stage 1 with the opponent past its last waypoint: the player and the race state are as
  at the start, the opponent has speed 0 and index 22, and its next motion update does
  nothing.
\<close>

theorem opponent_finish_line_reset:
  "handle_collision (finish_assets ''imgs/green-car.png'' (3, 5))
     (player_fast (finish_assets ''imgs/green-car.png'' (3, 5)),
      opponent_exhausted (finish_assets ''imgs/green-car.png'' (3, 5)), race_running 1)
   = (player0 (finish_assets ''imgs/green-car.png'' (3, 5)),
      (opponent0 (finish_assets ''imgs/green-car.png'' (3, 5)))\<lparr>speed := 0, waypoint_index := 22\<rparr>,
      race_state0)
   \<and> speed (opponent0 (finish_assets ''imgs/green-car.png'' (3, 5))) = 2
   \<and> waypoint_index (opponent0 (finish_assets ''imgs/green-car.png'' (3, 5))) = 0
   \<and> ComputerCar_update_motion
        ((opponent0 (finish_assets ''imgs/green-car.png'' (3, 5)))\<lparr>speed := 0, waypoint_index := 22\<rparr>)
     = Inr ((opponent0 (finish_assets ''imgs/green-car.png'' (3, 5)))\<lparr>speed := 0, waypoint_index := 22\<rparr>)"
  by (simp add: handle_collision_def collides_with_def finish_assets_def player_fast_def
      opponent_exhausted_def player0_fields opponent0_fields race_running_fields race_state0_def
      GameInfo_init_def GameInfo_reset_state_def reset_state_def red_car_def green_car_def
      ComputerCar_update_motion_def WAYPOINTS_def)


subsection \<open>The waypoint index across a tick\<close>

lemma move_player_no_keys: "move_player no_keys (player0 a) = player0 a"
  by (simp add: move_player_def no_keys_def apply_friction_def player0_fields
      update_motion_heading0 Let_def)

lemma move_player_w_key:
  "move_player w_key (player_arriving a) = (player_arriving a)\<lparr>speed := 2.1, y_pos := 261.9\<rparr>"
  by (simp add: move_player_def w_key_def accelerate_forward_def player_arriving_def
      player0_fields update_motion_heading0 Let_def)

lemma midlap_update_motion:
  "ComputerCar_update_motion (opponent_midlap a) = Inr ((opponent_midlap a)\<lparr>y_pos := 98\<rparr>)"
  by (simp add: opponent_midlap_def opponent0_fields ComputerCar_update_motion_def WAYPOINTS_def
      compute_angle_def steer_def desired_heading_def list_getitem_def desired_angle_rad_def
      degrees_def advance_waypoint_def
      Rect_collidepoint_def py_int_def update_motion_heading0 Let_def)

lemma on_waypoint_update_motion:
  "ComputerCar_update_motion (opponent_on_waypoint clear_assets)
   = Inr (update_motion ((opponent_on_waypoint clear_assets)\<lparr>heading := 4, waypoint_index := 1\<rparr>))"
  by (simp add: opponent_on_waypoint_def opponent0_fields ComputerCar_update_motion_def WAYPOINTS_def
      compute_angle_def steer_def desired_heading_def list_getitem_def desired_angle_rad_def
      degrees_def advance_waypoint_def
      Rect_collidepoint_def py_int_def Let_def clear_assets_def green_car_def)

lemma advance_waypoint_index:
  "advance_waypoint c = Inr c' \<Longrightarrow> waypoint_index c \<le> waypoint_index c'"
  by (auto simp: advance_waypoint_def split: sum.splits if_splits)

lemma compute_angle_index:
  "compute_angle c = Inr c' \<Longrightarrow> waypoint_index c' = waypoint_index c"
  by (auto simp: compute_angle_def Let_def split: sum.splits if_splits)

lemma waypoint_index_update_motion: "waypoint_index (update_motion c) = waypoint_index c"
  by (simp add: update_motion_def Let_def)

lemma ComputerCar_update_motion_index:
  assumes "ComputerCar_update_motion c = Inr c'"
  shows "waypoint_index c \<le> waypoint_index c'"
proof (cases "int (length (waypoints c)) \<le> waypoint_index c")
  case True
  with assms show ?thesis by (simp add: ComputerCar_update_motion_def)
next
  case False
  with assms obtain c1 c2 where 1: "compute_angle c = Inr c1"
    and 2: "advance_waypoint c1 = Inr c2" and 3: "c' = update_motion c2"
    by (auto simp: ComputerCar_update_motion_def split: sum.splits)
  from compute_angle_index[OF 1] advance_waypoint_index[OF 2] 3
  show ?thesis by (simp add: waypoint_index_update_motion)
qed

lemma waypoint_index_reset_state: "waypoint_index (reset_state c) = waypoint_index c"
  by (simp add: reset_state_def)

lemma advance_waypoint_index_step:
  "advance_waypoint c = Inr c' \<Longrightarrow> waypoint_index c' \<le> waypoint_index c + 1"
  by (auto simp: advance_waypoint_def split: sum.splits if_splits)

lemma ComputerCar_update_motion_index_step:
  assumes "ComputerCar_update_motion c = Inr c'"
  shows "waypoint_index c' \<le> waypoint_index c + 1"
proof (cases "int (length (waypoints c)) \<le> waypoint_index c")
  case True
  with assms show ?thesis by (simp add: ComputerCar_update_motion_def)
next
  case False
  with assms obtain c1 c2 where 1: "compute_angle c = Inr c1"
    and 2: "advance_waypoint c1 = Inr c2" and 3: "c' = update_motion c2"
    by (auto simp: ComputerCar_update_motion_def split: sum.splits)
  from compute_angle_index[OF 1] advance_waypoint_index_step[OF 2] 3
  show ?thesis by (simp add: waypoint_index_update_motion)
qed

lemma early_checks_index:
  assumes "opponent_finish_check a (border_check a (p, c, r)) = (p1, c1, r1)"
  shows "waypoint_index c1 = waypoint_index c"
  using assms by (auto simp: waypoint_index_reset_state split: if_splits)

lemma player_finish_check_index:
  assumes "player_finish_check a (p1, c1, r1) = (p2, c2, r2)"
  shows "waypoint_index c2 =
     (case collides_with p1 (FINISH_LINE_MASK a) (fst FINISH_POS) (snd FINISH_POS) of
        None \<Rightarrow> waypoint_index c1
      | Some poi \<Rightarrow> if snd poi \<noteq> 0 then 0 else waypoint_index c1)"
  using assms
  by (auto simp: Let_def ComputerCar_advance_level_def split: option.splits if_splits)

text \<open>
  C7, as amended. Across the opponent's motion update its waypoint index never decreases
  (it stays or grows by 1). Across a whole tick (input, motion update, collision handler,
  end-of-game reset) the index does not decrease unless the player completes a stage in that
  tick, that is, unless the player's finish-line check finds an overlap point with
  y-coordinate other than 0; then \<^verbatim>\<open>advance_level\<close> runs and the index is 0 after the tick.
  In every other tick the index after the tick is the one the motion update left.
\<close>

theorem tick_waypoint_index:
  assumes "main_loop_step a k (p, c, r) = Inr (p', c', r')"
  shows "(\<forall>c1. ComputerCar_update_motion c = Inr c1 \<longrightarrow>
            waypoint_index c \<le> waypoint_index c1 \<and> waypoint_index c1 \<le> waypoint_index c + 1
          \<and> (\<not> player_completes_stage a k (p, c, r) \<longrightarrow> waypoint_index c' = waypoint_index c1))
       \<and> (player_completes_stage a k (p, c, r) \<longrightarrow> waypoint_index c' = 0)
       \<and> (\<not> player_completes_stage a k (p, c, r) \<longrightarrow> waypoint_index c \<le> waypoint_index c')"
proof -
  from assms obtain c1 p2 c2 r2 where m: "ComputerCar_update_motion c = Inr c1"
    and h: "handle_collision a (move_player k p, c1, r) = (p2, c2, r2)"
    and e: "c' = c2 \<or> c' = reset_state c2"
    by (auto simp: Let_def split: sum.splits prod.splits if_splits)
  obtain p1 o2 r1 where
    early: "opponent_finish_check a (border_check a (move_player k p, c1, r)) = (p1, o2, r1)"
    by (cases "opponent_finish_check a (border_check a (move_player k p, c1, r))") blast
  from h early have pf: "player_finish_check a (p1, o2, r1) = (p2, c2, r2)"
    by (simp add: handle_collision_def)
  from e have i': "waypoint_index c' = waypoint_index c2"
    by (auto simp: waypoint_index_reset_state)
  have i2: "waypoint_index o2 = waypoint_index c1"
    using early by (rule early_checks_index)
  have zeroed: "waypoint_index c' = 0" if "player_completes_stage a k (p, c, r)"
    using that m early player_finish_check_index [OF pf] i'
    by (auto split: option.splits)
  have kept: "waypoint_index c' = waypoint_index c1" if "\<not> player_completes_stage a k (p, c, r)"
    using that m early player_finish_check_index [OF pf] i' i2
    by (auto split: option.splits)
  from ComputerCar_update_motion_index [OF m] ComputerCar_update_motion_index_step [OF m]
    zeroed kept m
  show ?thesis by auto
qed

lemma on_waypoint_tick:
  "main_loop_step clear_assets no_keys
     (player0 clear_assets, opponent_on_waypoint clear_assets, race_running 1)
   = Inr (player0 clear_assets,
          update_motion ((opponent_on_waypoint clear_assets)\<lparr>heading := 4, waypoint_index := 1\<rparr>),
          race_running 1)"
  apply (simp add: move_player_no_keys on_waypoint_update_motion)
  apply (simp add: handle_collision_def collides_with_def clear_assets_def
      race_running_fields is_game_finished_def LEVELS_def)
  done

lemma on_waypoint_not_completed:
  "\<not> player_completes_stage clear_assets no_keys
     (player0 clear_assets, opponent_on_waypoint clear_assets, race_running 1)"
  apply (simp add: move_player_no_keys on_waypoint_update_motion)
  apply (simp add: collides_with_def clear_assets_def)
  done

lemma arriving_tick:
  "main_loop_step (finish_assets ''imgs/red-car.png'' (3, 5)) w_key
     (player_arriving (finish_assets ''imgs/red-car.png'' (3, 5)),
      opponent_midlap (finish_assets ''imgs/red-car.png'' (3, 5)), race_running 1)
   = Inr (player0 (finish_assets ''imgs/red-car.png'' (3, 5)),
          (opponent0 (finish_assets ''imgs/red-car.png'' (3, 5)))\<lparr>speed := 2.2\<rparr>,
          GameInfo_advance_level (race_running 1))"
  apply (simp add: move_player_w_key midlap_update_motion)
  apply (simp add: handle_collision_def collides_with_def finish_assets_def player0_fields
      player_arriving_def opponent_midlap_def opponent0_fields race_running_fields red_car_def
      green_car_def GameInfo_advance_level_def is_game_finished_def LEVELS_def reset_state_def
      ComputerCar_advance_level_def Let_def)
  done

lemma arriving_completed:
  "player_completes_stage (finish_assets ''imgs/red-car.png'' (3, 5)) w_key
     (player_arriving (finish_assets ''imgs/red-car.png'' (3, 5)),
      opponent_midlap (finish_assets ''imgs/red-car.png'' (3, 5)), race_running 1)"
  apply (simp add: move_player_w_key midlap_update_motion)
  apply (simp add: collides_with_def finish_assets_def player_arriving_def player0_fields
      opponent_midlap_def opponent0_fields red_car_def green_car_def)
  done

theorem tick_waypoint_index_witness:
  "main_loop_step clear_assets no_keys
     (player0 clear_assets, opponent_on_waypoint clear_assets, race_running 1)
   = Inr (player0 clear_assets,
          update_motion ((opponent_on_waypoint clear_assets)\<lparr>heading := 4, waypoint_index := 1\<rparr>),
          race_running 1)
   \<and> \<not> player_completes_stage clear_assets no_keys
        (player0 clear_assets, opponent_on_waypoint clear_assets, race_running 1)
   \<and> waypoint_index (opponent_on_waypoint clear_assets)
      \<le> waypoint_index
        (update_motion ((opponent_on_waypoint clear_assets)\<lparr>heading := 4, waypoint_index := 1\<rparr>))
   \<and> player_completes_stage (finish_assets ''imgs/red-car.png'' (3, 5)) w_key
        (player_arriving (finish_assets ''imgs/red-car.png'' (3, 5)),
         opponent_midlap (finish_assets ''imgs/red-car.png'' (3, 5)), race_running 1)
   \<and> waypoint_index ((opponent0 (finish_assets ''imgs/red-car.png'' (3, 5)))\<lparr>speed := 2.2\<rparr>) = 0"
  using tick_waypoint_index [OF on_waypoint_tick] tick_waypoint_index [OF arriving_tick]
    on_waypoint_tick on_waypoint_not_completed arriving_completed
  by blast

text \<open>
  The claim as stated fails on a tick in which the player completes a stage: with the
  opponent on its way to the second waypoint (index 1) and the player driving into the
  finish line below its top row, the tick ends with the opponent at its start, at speed 2.2
  and index 0.
\<close>

theorem tick_waypoint_index_counterexample:
  "main_loop_step (finish_assets ''imgs/red-car.png'' (3, 5)) w_key
     (player_arriving (finish_assets ''imgs/red-car.png'' (3, 5)),
      opponent_midlap (finish_assets ''imgs/red-car.png'' (3, 5)), race_running 1)
   = Inr (player0 (finish_assets ''imgs/red-car.png'' (3, 5)),
          (opponent0 (finish_assets ''imgs/red-car.png'' (3, 5)))\<lparr>speed := 2.2\<rparr>,
          GameInfo_advance_level (race_running 1))
   \<and> waypoint_index (opponent_midlap (finish_assets ''imgs/red-car.png'' (3, 5))) = 1
   \<and> waypoint_index ((opponent0 (finish_assets ''imgs/red-car.png'' (3, 5)))\<lparr>speed := 2.2\<rparr>) = 0"
  using arriving_tick by (simp add: opponent_midlap_def opponent0_fields)

subsection \<open>Totality of the opponent's operations\<close>

lemma compute_angle_range:
  "compute_angle c = Inr c' \<Longrightarrow> index_in_range c \<Longrightarrow> index_in_range c'"
  by (auto simp: compute_angle_def index_in_range_def Let_def split: sum.splits if_splits)

lemma advance_waypoint_range:
  "advance_waypoint c = Inr c' \<Longrightarrow> index_in_range c \<Longrightarrow> index_in_range c'"
  by (auto simp: advance_waypoint_def index_in_range_def list_getitem_def
      split: sum.splits if_splits)

lemma update_motion_range: "index_in_range (update_motion c) = index_in_range c"
  by (simp add: update_motion_def index_in_range_def Let_def)

lemma ComputerCar_update_motion_range:
  assumes "ComputerCar_update_motion c = Inr c'" and "index_in_range c"
  shows "index_in_range c'"
proof (cases "int (length (waypoints c)) \<le> waypoint_index c")
  case True
  with assms show ?thesis by (simp add: ComputerCar_update_motion_def)
next
  case False
  with assms(1) obtain c1 c2 where 1: "compute_angle c = Inr c1"
    and 2: "advance_waypoint c1 = Inr c2" and 3: "c' = update_motion c2"
    by (auto simp: ComputerCar_update_motion_def split: sum.splits)
  from advance_waypoint_range[OF 2 compute_angle_range[OF 1 assms(2)]] 3
  show ?thesis by (simp add: update_motion_range)
qed

lemma reachable_index_in_range: "reachable c \<Longrightarrow> index_in_range c"
proof (induction rule: reachable.induct)
  case (r_init a ms ts wps)
  show ?case
    by (simp add: index_in_range_def ComputerCar_init_def car.defs computer_car.defs)
next
  case (r_rotate c l r)
  then show ?case by (simp add: index_in_range_def rotate_car_def)
next
  case (r_forward c c')
  from r_forward.IH
  have "index_in_range (c\<lparr>speed := min (speed c + acceleration c) (max_speed c)\<rparr>)"
    by (simp add: index_in_range_def)
  with r_forward.hyps(2) show ?case
    unfolding ComputerCar_accelerate_forward_def by (rule ComputerCar_update_motion_range)
next
  case (r_backward c c')
  from r_backward.IH
  have "index_in_range (c\<lparr>speed := max (speed c - acceleration c) (- max_speed c / 2)\<rparr>)"
    by (simp add: index_in_range_def)
  with r_backward.hyps(2) show ?case
    unfolding ComputerCar_accelerate_backward_def by (rule ComputerCar_update_motion_range)
next
  case (r_motion c c')
  then show ?case by (blast intro: ComputerCar_update_motion_range)
next
  case (r_angle c c')
  then show ?case by (blast intro: compute_angle_range)
next
  case (r_waypoint c c')
  then show ?case by (blast intro: advance_waypoint_range)
next
  case (r_reset c)
  then show ?case by (simp add: index_in_range_def reset_state_def)
next
  case (r_level c stg)
  then show ?case
    by (simp add: index_in_range_def ComputerCar_advance_level_def reset_state_def Let_def)
qed

lemma in_range_direct_calls:
  assumes "0 \<le> waypoint_index c" and "waypoint_index c < int (length (waypoints c))"
  shows "(\<exists>c'. compute_angle c = Inr c') \<and> (\<exists>c'. advance_waypoint c = Inr c')"
  using assms
  by (simp add: compute_angle_def advance_waypoint_def list_getitem_in_range Let_def)

text \<open>
  C5. No car operation raises. The player's operations and the opponent's \<^verbatim>\<open>rotate\<close>,
  \<^verbatim>\<open>reset_state\<close> and \<^verbatim>\<open>advance_level\<close> contain no statement that can raise and are total
  functions here. The only statement that can raise is the indexing of the waypoint list in
  \<^verbatim>\<open>compute_angle\<close> and \<^verbatim>\<open>advance_waypoint\<close>. In every state of the opponent reachable
  from a constructed one through its methods, the waypoint index lies between 0 and the
  number of waypoints, \<^verbatim>\<open>update_motion\<close>, \<^verbatim>\<open>accelerate_forward\<close> and
  \<^verbatim>\<open>accelerate_backward\<close> return a state, so the indexing inside them is in bounds, and
  \<^verbatim>\<open>compute_angle\<close> and \<^verbatim>\<open>advance_waypoint\<close> themselves return a state on their domain, the
  states whose index is below the number of waypoints, which is where \<^verbatim>\<open>update_motion\<close>
  calls them.
\<close>

theorem opponent_operations_total:
  assumes "reachable c"
  shows "0 \<le> waypoint_index c \<and> waypoint_index c \<le> int (length (waypoints c))
     \<and> (\<exists>c'. ComputerCar_update_motion c = Inr c')
     \<and> (\<exists>c'. ComputerCar_accelerate_forward c = Inr c')
     \<and> (\<exists>c'. ComputerCar_accelerate_backward c = Inr c')
     \<and> (waypoint_index c < int (length (waypoints c)) \<longrightarrow>
          (\<exists>c'. compute_angle c = Inr c') \<and> (\<exists>c'. advance_waypoint c = Inr c'))"
proof -
  from reachable_index_in_range[OF assms]
  have r: "0 \<le> waypoint_index c" "waypoint_index c \<le> int (length (waypoints c))"
    by (simp_all add: index_in_range_def)
  have m: "\<exists>c'. ComputerCar_update_motion c = Inr c'"
    using r(1) by (rule ComputerCar_update_motion_total)
  have f: "\<exists>c'. ComputerCar_accelerate_forward c = Inr c'"
    unfolding ComputerCar_accelerate_forward_def
    by (rule ComputerCar_update_motion_total) (simp add: r(1))
  have b: "\<exists>c'. ComputerCar_accelerate_backward c = Inr c'"
    unfolding ComputerCar_accelerate_backward_def
    by (rule ComputerCar_update_motion_total) (simp add: r(1))
  show ?thesis using r m f b in_range_direct_calls[OF r(1)] by blast
qed

lemma opponent_straight_fields:
  "opponent_straight = \<lparr>sprite = green_car, max_speed = 2, speed = 2, turn_speed = 4, heading = 0,
     x_pos = 150, y_pos = 200, acceleration = 1 / 10, START_POSITION = (150, 200),
     waypoints = [(150, 119)], waypoint_index = 0\<rparr>"
  by (simp add: opponent_straight_def ComputerCar_init_def AbstractCar_init_def car.defs
      computer_car.defs clear_assets_def)

theorem opponent_operations_total_witness:
  "reachable opponent_straight
   \<and> waypoint_index opponent_straight < int (length (waypoints opponent_straight))
   \<and> ComputerCar_update_motion opponent_straight \<noteq> Inl IndexError
   \<and> ComputerCar_accelerate_forward opponent_straight \<noteq> Inl IndexError
   \<and> ComputerCar_accelerate_backward opponent_straight \<noteq> Inl IndexError
   \<and> compute_angle opponent_straight \<noteq> Inl IndexError
   \<and> advance_waypoint opponent_straight \<noteq> Inl IndexError"
proof -
  have h: "reachable opponent_straight"
    unfolding opponent_straight_def by (rule r_init)
  have i: "waypoint_index opponent_straight < int (length (waypoints opponent_straight))"
    by (simp add: opponent_straight_fields)
  show ?thesis using opponent_operations_total [OF h] h i by auto
qed

subsection \<open>Steering\<close>

lemma compute_angle_steer:
  assumes "list_getitem (waypoints c) (waypoint_index c) = Inr target"
  shows "compute_angle c = Inr (c\<lparr>heading :=
     steer (-) (+) (heading c) (turn_speed c) (desired_heading c target)\<rparr>)"
  using assms by (simp add: compute_angle_def)

lemma rounding_nonneg:
  assumes "\<forall>x y. \<bar>fsub x y - (x - y)\<bar> \<le> e * \<bar>x - y\<bar>"
  shows "0 \<le> (e::real)"
proof -
  from assms have "\<bar>fsub 1 0 - (1 - 0)\<bar> \<le> e * \<bar>1 - 0\<bar>" by blast
  then show ?thesis by simp
qed

text \<open>Subtracting or adding back a rounded difference lands near the target.\<close>

lemma land_near:
  fixes H T m h e :: real
  assumes e0: "0 \<le> e"
      and m: "\<bar>m - (H - T)\<bar> \<le> E"
      and h: "\<bar>h - (H - m)\<bar> \<le> e * \<bar>H - m\<bar>"
  shows "\<bar>h - T\<bar> \<le> e * \<bar>T\<bar> + (1 + e) * E"
proof -
  have a: "\<bar>(H - m) - T\<bar> \<le> E" using m by arith
  then have b: "\<bar>H - m\<bar> \<le> \<bar>T\<bar> + E" by arith
  have "e * \<bar>H - m\<bar> \<le> e * (\<bar>T\<bar> + E)" using b e0 by (rule mult_left_mono)
  with h have c: "\<bar>h - (H - m)\<bar> \<le> e * \<bar>T\<bar> + e * E" by (simp add: algebra_simps)
  have "\<bar>h - T\<bar> \<le> \<bar>h - (H - m)\<bar> + \<bar>(H - m) - T\<bar>" by arith
  with a c show ?thesis by (simp add: algebra_simps)
qed

text \<open>
  C4, as amended. \<^verbatim>\<open>compute_angle\<close> changes the heading only, to the value of lines 162--170
  at the heading \<open>H\<close>, the turn rate \<open>t \<ge> 0\<close> and the desired heading \<open>D\<close> computed from the
  current waypoint. For those lines, let the machine's subtraction and addition have
  relative error at most \<open>e\<close> (IEEE doubles: \<open>e = 2^-53\<close>, overflow aside; exact arithmetic:
  \<open>e = 0\<close>) and let \<open>d\<close> be the difference \<open>H - D\<close> as the machine computes it.
  If \<open>d < 180\<close>: with \<open>|d| \<le> t\<close> the new heading is \<open>D\<close> up to rounding, within
  \<open>e |D| + (1 + e) e |H - D|\<close> of it, so exactly \<open>D\<close> when \<open>e = 0\<close>; with \<open>d > t\<close> it is the
  machine's \<open>H - t\<close> and with \<open>d < - t\<close> the machine's \<open>H + t\<close>, one turn rate towards \<open>D\<close>.
  If \<open>d \<ge> 180\<close> the code steers to \<open>D + 360\<close>: the same holds with the machine's \<open>d - 360\<close>
  in place of \<open>d\<close> and \<open>D + 360\<close> in place of \<open>D\<close>, the rounding bound growing by the error
  of the second subtraction.
\<close>

theorem compute_angle_steering:
  assumes wp: "list_getitem (waypoints c) (waypoint_index c) = Inr target"
      and t0: "0 \<le> t"
      and sub: "\<forall>x y. \<bar>fsub x y - (x - y)\<bar> \<le> e * \<bar>x - y\<bar>"
      and add: "\<forall>x y. \<bar>fadd x y - (x + y)\<bar> \<le> e * \<bar>x + y\<bar>"
  shows "compute_angle c = Inr (c\<lparr>heading :=
           steer (-) (+) (heading c) (turn_speed c) (desired_heading c target)\<rparr>)
     \<and> (fsub H D < 180 \<longrightarrow>
          (\<bar>fsub H D\<bar> \<le> t \<longrightarrow>
             \<bar>steer fsub fadd H t D - D\<bar> \<le> e * \<bar>D\<bar> + (1 + e) * (e * \<bar>H - D\<bar>))
        \<and> (t < fsub H D \<longrightarrow> steer fsub fadd H t D = fsub H t)
        \<and> (fsub H D < - t \<longrightarrow> steer fsub fadd H t D = fadd H t))
     \<and> (180 \<le> fsub H D \<longrightarrow>
          (\<bar>fsub (fsub H D) 360\<bar> \<le> t \<longrightarrow>
             \<bar>steer fsub fadd H t D - (D + 360)\<bar>
               \<le> e * \<bar>D + 360\<bar> + (1 + e) * (e * \<bar>H - D\<bar> + e * \<bar>fsub H D - 360\<bar>))
        \<and> (t < fsub (fsub H D) 360 \<longrightarrow> steer fsub fadd H t D = fsub H t)
        \<and> (fsub (fsub H D) 360 < - t \<longrightarrow> steer fsub fadd H t D = fadd H t))"
proof -
  have e0: "0 \<le> e" using sub by (rule rounding_nonneg)
  define d where "d = fsub H D"
  define d' where "d' = fsub d 360"
  have dd: "\<bar>d - (H - D)\<bar> \<le> e * \<bar>H - D\<bar>" using sub by (simp add: d_def)
  have dd': "\<bar>d' - (d - 360)\<bar> \<le> e * \<bar>d - 360\<bar>" using sub by (simp add: d'_def)
  have hs: "\<bar>fsub H m - (H - m)\<bar> \<le> e * \<bar>H - m\<bar>" for m using sub by simp
  have ha: "\<bar>fadd H (- m) - (H - m)\<bar> \<le> e * \<bar>H - m\<bar>" for m
    using add [rule_format, of H "- m"] by simp
  have near: "\<bar>steer fsub fadd H t D - D\<bar> \<le> e * \<bar>D\<bar> + (1 + e) * (e * \<bar>H - D\<bar>)"
    if "d < 180" "\<bar>d\<bar> \<le> t"
  proof (cases "0 < d")
    case True
    with that have "steer fsub fadd H t D = fsub H d"
      by (simp add: steer_def d_def [symmetric] Let_def min_def)
    with land_near [OF e0 dd hs] show ?thesis by simp
  next
    case False
    with that have "steer fsub fadd H t D = fadd H (- d)"
      by (simp add: steer_def d_def [symmetric] Let_def min_def)
    with land_near [OF e0 dd ha] show ?thesis by simp
  qed
  have far: "steer fsub fadd H t D = fsub H t" if "d < 180" "t < d"
    using that t0 by (simp add: steer_def d_def [symmetric] Let_def min_def)
  have far': "steer fsub fadd H t D = fadd H t" if "d < 180" "d < - t"
    using that t0 by (simp add: steer_def d_def [symmetric] Let_def min_def)
  have wdd: "\<bar>d' - (H - (D + 360))\<bar> \<le> e * \<bar>H - D\<bar> + e * \<bar>d - 360\<bar>"
    using dd dd' by arith
  have wnear: "\<bar>steer fsub fadd H t D - (D + 360)\<bar>
      \<le> e * \<bar>D + 360\<bar> + (1 + e) * (e * \<bar>H - D\<bar> + e * \<bar>d - 360\<bar>)"
    if "180 \<le> d" "\<bar>d'\<bar> \<le> t"
  proof (cases "0 < d'")
    case True
    with that have "steer fsub fadd H t D = fsub H d'"
      by (simp add: steer_def d_def [symmetric] d'_def [symmetric] Let_def min_def)
    with land_near [OF e0 wdd hs] show ?thesis by simp
  next
    case False
    with that have "steer fsub fadd H t D = fadd H (- d')"
      by (simp add: steer_def d_def [symmetric] d'_def [symmetric] Let_def min_def)
    with land_near [OF e0 wdd ha] show ?thesis by simp
  qed
  have wfar: "steer fsub fadd H t D = fsub H t" if "180 \<le> d" "t < d'"
    using that t0 by (simp add: steer_def d_def [symmetric] d'_def [symmetric] Let_def min_def)
  have wfar': "steer fsub fadd H t D = fadd H t" if "180 \<le> d" "d' < - t"
    using that t0 by (simp add: steer_def d_def [symmetric] d'_def [symmetric] Let_def min_def)
  show ?thesis
    using compute_angle_steer [OF wp] near far far' wnear wfar wfar'
    unfolding d_def d'_def by blast
qed

lemma opponent_heading_target:
  "list_getitem (waypoints (opponent_heading h)) (waypoint_index (opponent_heading h))
     = Inr (175, 119)"
  by (simp add: opponent_heading_def opponent_aligned_def opponent0_fields list_getitem_def
      WAYPOINTS_def)

lemma opponent_heading_desired: "desired_heading (opponent_heading h) (175, 119) = 0"
  by (simp add: desired_heading_def desired_angle_rad_def degrees_def opponent_heading_def
      opponent_aligned_def opponent0_fields Let_def)

lemma opponent_heading_fields:
  "heading (opponent_heading h) = h" "turn_speed (opponent_heading h) = 4"
  by (simp_all add: opponent_heading_def opponent_aligned_def opponent0_fields)

lemma opponent_heading_update [simp]:
  "(opponent_heading h)\<lparr>heading := h'\<rparr> = opponent_heading h'"
  by (simp add: opponent_heading_def)

lemma skew_sub_error: "\<forall>x y. \<bar>skew_sub x y - (x - y)\<bar> \<le> (1 / 8) * \<bar>x - y\<bar>"
proof (intro allI)
  fix x y :: real
  have eq: "skew_sub x y - (x - y) = (x - y) / 8" by (simp add: skew_sub_def field_simps)
  show "\<bar>skew_sub x y - (x - y)\<bar> \<le> (1 / 8) * \<bar>x - y\<bar>" unfolding eq by simp
qed

lemma skew_add_error: "\<forall>x y. \<bar>skew_add x y - (x + y)\<bar> \<le> (1 / 8) * \<bar>x + y\<bar>"
proof (intro allI)
  fix x y :: real
  have eq: "skew_add x y - (x + y) = (x + y) / 8" by (simp add: skew_add_def field_simps)
  show "\<bar>skew_add x y - (x + y)\<bar> \<le> (1 / 8) * \<bar>x + y\<bar>" unfolding eq by simp
qed

theorem compute_angle_steering_witness:
  "list_getitem (waypoints (opponent_heading 3)) (waypoint_index (opponent_heading 3))
     = Inr (175, 119)
   \<and> compute_angle (opponent_heading 3) = Inr (opponent_heading 0)
   \<and> skew_sub 3 0 < 180 \<and> \<bar>skew_sub 3 0\<bar> \<le> 4
   \<and> steer skew_sub skew_add 3 4 0 = - (27 / 64)
   \<and> \<bar>steer skew_sub skew_add 3 4 0 - 0\<bar> \<le> 27 / 64
   \<and> steer (-) (+) 3 4 0 = 0
   \<and> steer (-) (+) 10 4 0 = 6
   \<and> steer (-) (+) (- 10) 4 0 = - 6
   \<and> steer (-) (+) 358 4 0 = 360
   \<and> steer (-) (+) 200 4 0 = 204"
proof -
  have t: "(0::real) \<le> 4" by simp
  have ex: "\<forall>x y::real. \<bar>(x - y) - (x - y)\<bar> \<le> 0 * \<bar>x - y\<bar>"
    "\<forall>x y::real. \<bar>(x + y) - (x + y)\<bar> \<le> 0 * \<bar>x + y\<bar>"
    by simp_all
  have v: "skew_sub 3 0 = 27 / 8" by (simp add: skew_sub_def)
  have w: "steer skew_sub skew_add 3 4 0 = - (27 / 64)"
    by (simp add: steer_def skew_sub_def Let_def)
  show ?thesis
    using compute_angle_steering [OF opponent_heading_target t skew_sub_error skew_add_error,
        of 3 3 0]
      compute_angle_steering [OF opponent_heading_target t ex, of 3 3 0]
      compute_angle_steering [OF opponent_heading_target t ex, of 3 10 0]
      compute_angle_steering [OF opponent_heading_target t ex, of 3 "- 10" 0]
      compute_angle_steering [OF opponent_heading_target t ex, of 3 358 0]
      compute_angle_steering [OF opponent_heading_target t ex, of 3 200 0]
      opponent_heading_target [of 3] v w
    by (simp add: opponent_heading_desired opponent_heading_fields)
qed

text \<open>
  The claim as stated fails when \<open>H - D \<ge> 180\<close>, in exact and in double arithmetic alike
  (every number involved is a small integer): with \<open>H = 358\<close>, \<open>D = 0\<close> and turn rate 4 the
  difference 358 is greater than the turn rate, yet the heading moves by 2, to 360, and not
  by 4 towards 0.
\<close>

theorem compute_angle_steering_counterexample:
  "\<bar>heading (opponent_heading 358) - desired_heading (opponent_heading 358) (175, 119)\<bar>
     > turn_speed (opponent_heading 358)
   \<and> desired_heading (opponent_heading 358) (175, 119) = 0
   \<and> turn_speed (opponent_heading 358) = 4
   \<and> compute_angle (opponent_heading 358) = Inr (opponent_heading 360)
   \<and> heading (opponent_heading 360) - heading (opponent_heading 358) = 2"
  by (simp add: compute_angle_steer [OF opponent_heading_target] opponent_heading_desired
      opponent_heading_fields steer_def Let_def)

end
